theory Spec2Isabelle
  imports Complex_Main
begin

section \<open>JavaScript values used by the routes of server.js\<close>

text \<open>
  A JavaScript string is a sequence of UTF-16 code units; a code unit is a natural
  number. \<open>js\<close> turns an ASCII literal into such a string.
\<close>

type_synonym js_string = "nat list"

definition js :: "string \<Rightarrow> js_string" where
  "js s = map of_char s"

text \<open>
  A JavaScript number is a double. The routes only compute with the numbers \<open>parseInt\<close>
  returns and with one product of two of them, so every finite number they meet is an
  integer: \<open>Num n\<close> is the double whose value is the integer \<open>n\<close>. Both zeros are \<open>Num 0\<close>
  (the code never tells them apart). A safe integer has magnitude at most \<open>2^53 - 1\<close>.
\<close>

datatype number = NaN | Num int | PosInfinity | NegInfinity

definition MAX_SAFE_INTEGER :: int where
  "MAX_SAFE_INTEGER = 2 ^ 53 - 1"

text \<open>The number of binary digits of a natural number.\<close>

fun bit_length :: "nat \<Rightarrow> nat" where
  "bit_length n = (if n = 0 then 0 else Suc (bit_length (n div 2)))"

text \<open>
  A natural number rounded to its 53 leading binary digits, ties to the even significand:
  the magnitude of the double nearest to it.
\<close>

definition round_to_53 :: "nat \<Rightarrow> nat" where
  "round_to_53 a =
     (let k = bit_length a - 53;
          q = a div 2 ^ k;
          r = a mod 2 ^ k;
          q' = (if 2 ^ k < 2 * r \<or> (2 * r = 2 ^ k \<and> odd q) then q + 1 else q)
      in q' * 2 ^ k)"

text \<open>
  The double nearest to an integer; a magnitude that rounds to \<open>2^1024\<close> or more is an
  infinity. This is how \<open>parseInt\<close> turns the value of its digits into a number, and how
  the product of two integer doubles is rounded.
\<close>

definition to_number :: "int \<Rightarrow> number" where
  "to_number n =
     (let v = round_to_53 (nat \<bar>n\<bar>)
      in if 2 ^ 1024 \<le> v then (if n < 0 then NegInfinity else PosInfinity)
         else Num (if n < 0 then - int v else int v))"

text \<open>The product \<open>a * b\<close> of two numbers: zero times an infinity is \<open>NaN\<close>.\<close>

definition negative :: "number \<Rightarrow> bool" where
  "negative a = (case a of Num x \<Rightarrow> x < 0 | NegInfinity \<Rightarrow> True | _ \<Rightarrow> False)"

definition js_times :: "number \<Rightarrow> number \<Rightarrow> number" where
  "js_times a b =
     (if a = NaN \<or> b = NaN then NaN
      else case (a, b) of
             (Num x, Num y) \<Rightarrow> to_number (x * y)
           | _ \<Rightarrow>
               if a = Num 0 \<or> b = Num 0 then NaN
               else if negative a = negative b then PosInfinity else NegInfinity)"

text \<open>\<open>a || d\<close> for a number \<open>a\<close>: \<open>NaN\<close> and both zeros are falsy, every other number is truthy.\<close>

definition or_default :: "number \<Rightarrow> number \<Rightarrow> number" where
  "or_default a d = (if a = NaN \<or> a = Num 0 then d else a)"

subsection \<open>parseInt\<close>

text \<open>
  The white space \<open>parseInt\<close> skips: TAB, LF, VT, FF, CR, SP, NBSP, the other space
  separators of Unicode, LS, PS and the byte order mark.
\<close>

definition is_white_space :: "nat \<Rightarrow> bool" where
  "is_white_space c \<longleftrightarrow>
     c \<in> {9, 10, 11, 12, 13, 32, 160, 5760, 8232, 8233, 8239, 8287, 12288, 65279}
     \<or> (8192 \<le> c \<and> c \<le> 8202)"

text \<open>The value of a code unit as a digit: \<open>0-9\<close>, \<open>a-z\<close>, \<open>A-Z\<close>.\<close>

definition digit_value :: "nat \<Rightarrow> nat option" where
  "digit_value c =
     (if 48 \<le> c \<and> c \<le> 57 then Some (c - 48)
      else if 97 \<le> c \<and> c \<le> 122 then Some (c - 97 + 10)
      else if 65 \<le> c \<and> c \<le> 90 then Some (c - 65 + 10)
      else None)"

definition is_digit :: "nat \<Rightarrow> nat \<Rightarrow> bool" where
  "is_digit radix c = (case digit_value c of None \<Rightarrow> False | Some v \<Rightarrow> v < radix)"

definition digits_value :: "nat \<Rightarrow> js_string \<Rightarrow> int" where
  "digits_value radix z =
     foldl (\<lambda>acc c. acc * int radix + int (case digit_value c of None \<Rightarrow> 0 | Some v \<Rightarrow> v)) 0 z"

text \<open>The sign: a leading \<open>-\<close> (45) or \<open>+\<close> (43) is removed.\<close>

definition strip_sign :: "js_string \<Rightarrow> int \<times> js_string" where
  "strip_sign s =
     (case s of
        [] \<Rightarrow> (1, s)
      | c # r \<Rightarrow> if c = 45 then (-1, r) else if c = 43 then (1, r) else (1, s))"

text \<open>With no radix argument: \<open>0x\<close> or \<open>0X\<close> (48, then 120 or 88) selects radix 16.\<close>

definition strip_prefix :: "js_string \<Rightarrow> nat \<times> js_string" where
  "strip_prefix s =
     (case s of
        c # x # r \<Rightarrow> if c = 48 \<and> (x = 120 \<or> x = 88) then (16, r) else (10, s)
      | _ \<Rightarrow> (10, s))"

text \<open>
  \<open>parseInt(string)\<close> with one argument: skip white space, read the sign and the prefix,
  take the longest run of digits of the radix; no digit gives \<open>NaN\<close>.
\<close>

definition parseInt :: "js_string \<Rightarrow> number" where
  "parseInt s =
     (let (sign, s1) = strip_sign (dropWhile is_white_space s);
          (radix, s2) = strip_prefix s1;
          z = takeWhile (is_digit radix) s2
      in if z = [] then NaN else to_number (sign * digits_value radix z))"

text \<open>\<open>ToString\<close> of a query parameter: an absent one is \<open>undefined\<close>.\<close>

definition ToString :: "js_string option \<Rightarrow> js_string" where
  "ToString v = (case v of None \<Rightarrow> js ''undefined'' | Some s \<Rightarrow> s)"

subsection \<open>Values of documents\<close>

datatype json =
    JNull
  | JBool bool
  | JNum real
  | JStr js_string
  | JArr "json list"
  | JObj "(js_string \<times> json) list"

fun truthy :: "json \<Rightarrow> bool" where
  "truthy JNull = False"
| "truthy (JBool b) = b"
| "truthy (JNum x) = (x \<noteq> 0)"
| "truthy (JStr s) = (s \<noteq> [])"
| "truthy (JArr _) = True"
| "truthy (JObj _) = True"

text \<open>\<open>v || d\<close> for a field \<open>v\<close> of a document; a field the document lacks is \<open>None\<close>.\<close>

definition js_or :: "json option \<Rightarrow> json \<Rightarrow> json" where
  "js_or v d = (case v of None \<Rightarrow> d | Some x \<Rightarrow> if truthy x then x else d)"

section \<open>Features (models/Feature.js) and the store\<close>

text \<open>
  A lean document of the collection. \<open>doc_id\<close> is the \<open>_id\<close> the store assigned, as the
  number its bytes spell, which is the order the store sorts by.
\<close>

record doc =
  doc_id :: nat
  doc_geometry :: "json option"
  doc_properties :: "json option"
  doc_file :: "json option"

record feature =
  f_type :: js_string
  f_geometry :: json
  f_properties :: json
  f_file :: json
  f_id :: nat

definition default_geometry :: json where
  "default_geometry =
     JObj [(js ''type'', JStr (js ''Point'')), (js ''coordinates'', JArr [JNum 0, JNum 0])]"

text \<open>The object both routes build from a document (server.js 173-179 and 230-236).\<close>

definition to_geojson :: "doc \<Rightarrow> feature" where
  "to_geojson f =
     \<lparr> f_type = js ''Feature'',
       f_geometry = js_or (doc_geometry f) default_geometry,
       f_properties = js_or (doc_properties f) (JObj []),
       f_file = js_or (doc_file f) (JStr (js ''default'')),
       f_id = doc_id f \<rparr>"

text \<open>
  What a route sees of mongoose and of the clock during one attempt. The store is an
  external collaborator: \<open>collection\<close> holds its documents, \<open>find_error\<close>,
  \<open>count_error\<close> and \<open>cursor_error\<close> say whether the operation awaited in this attempt
  rejects and with which message, \<open>estimated\<close> is what \<open>estimatedDocumentCount\<close> answers.
  \<open>find_irregular\<close> is what the store answers to a skip or a limit outside the domain of
  its find command (a skip that is not a safe integer \<open>\<ge> 0\<close>, a limit that is not a safe
  integer \<open>> 0\<close>); the model leaves that answer open. \<open>date_now\<close> is the clock the attempt
  reads first (\<open>Date.now()\<close>, in milliseconds), \<open>query_ms\<close> the time its count queries take
  (what the route logs as \<open>Date.now() - startTime\<close>).
\<close>

record world =
  readyState :: int
  date_now :: int
  query_ms :: nat
  collection :: "doc list"
  find_error :: "js_string option"
  find_irregular :: "number \<Rightarrow> number \<Rightarrow> js_string + doc list"
  estimated :: "js_string + nat"
  count_error :: "js_string option"
  cursor_error :: "js_string option"

text \<open>\<open>Feature.find({}).lean().sort({_id: 1}).skip(skip).limit(limit)\<close>, awaited.\<close>

definition find_page :: "world \<Rightarrow> number \<Rightarrow> number \<Rightarrow> js_string + doc list" where
  "find_page w skip lmt =
     (case find_error w of
        Some m \<Rightarrow> Inl m
      | None \<Rightarrow>
          (case (skip, lmt) of
             (Num s, Num l) \<Rightarrow>
               if 0 \<le> s \<and> s \<le> MAX_SAFE_INTEGER \<and> 0 < l \<and> l \<le> MAX_SAFE_INTEGER
               then Inr (take (nat l) (drop (nat s) (sort_key doc_id (collection w))))
               else find_irregular w skip lmt
           | _ \<Rightarrow> find_irregular w skip lmt))"

text \<open>\<open>Feature.estimatedDocumentCount()\<close> and \<open>Feature.countDocuments({})\<close>, awaited.\<close>

definition estimatedDocumentCount :: "world \<Rightarrow> js_string + nat" where
  "estimatedDocumentCount w = estimated w"

definition countDocuments :: "world \<Rightarrow> js_string + nat" where
  "countDocuments w =
     (case count_error w of Some m \<Rightarrow> Inl m | None \<Rightarrow> Inr (length (collection w)))"



section \<open>Requests, responses and what a handler does\<close>

text \<open>
  \<open>req.query.page\<close> and \<open>req.query.limit\<close>: absent (\<open>undefined\<close>) or a string. \<open>parseInt\<close>
  reads its argument through \<open>ToString\<close>, so a parameter given several times (an array)
  counts here as the string \<open>ToString\<close> makes of it.
\<close>

record request =
  query_page :: "js_string option"
  query_limit :: "js_string option"

record batch_body =
  features :: "feature list"
  page :: number
  limit :: number
  hasMore :: bool
  count :: nat

datatype body =
    ErrorBody (error_text: js_string) (message: "js_string option") (attempts: "nat option")
  | CountBody (count_value: nat) (cached: bool)
  | BatchBody batch_body
  | FeatureCollection "feature list"

record response =
  status :: nat
  body :: body

text \<open>
  The trace of one request: the response sent (if any), the delays of the \<open>setTimeout\<close>
  calls awaited, in order and in milliseconds, and the number of store operations awaited.
\<close>

record outcome =
  sent :: "response option"
  waits :: "nat list"
  queries :: nat

definition start :: outcome where
  "start = \<lparr> sent = None, waits = [], queries = 0 \<rparr>"

text \<open>\<open>res.json(b)\<close> answers with status 200, \<open>res.status(n).json(b)\<close> with \<open>n\<close>.\<close>

definition json_reply :: "nat \<Rightarrow> body \<Rightarrow> outcome \<Rightarrow> outcome" where
  "json_reply n b out = out \<lparr> sent := Some \<lparr> status = n, body = b \<rparr> \<rparr>"

definition awaited_query :: "outcome \<Rightarrow> outcome" where
  "awaited_query out = out \<lparr> queries := Suc (queries out) \<rparr>"

definition awaited_timeout :: "nat \<Rightarrow> outcome \<Rightarrow> outcome" where
  "awaited_timeout ms out = out \<lparr> waits := waits out @ [ms] \<rparr>"

definition maxRetries :: nat where
  "maxRetries = 3"

definition not_connected :: body where
  "not_connected = ErrorBody (js ''Database not connected'') None None"

text \<open>
  One run of the body of a \<open>try\<close> block: it returns from the handler, or it throws an
  error with a message; either way it leaves a state behind.
\<close>

datatype 's attempt = Returned 's | Threw js_string 's

section \<open>GET /api/features/batch\<close>

definition page_of :: "request \<Rightarrow> number" where
  "page_of req = or_default (parseInt (ToString (query_page req))) (Num 0)"

definition limit_of :: "request \<Rightarrow> number" where
  "limit_of req = or_default (parseInt (ToString (query_limit req))) (Num 500)"

definition skip_of :: "request \<Rightarrow> number" where
  "skip_of req = js_times (page_of req) (limit_of req)"

text \<open>The body of the success response, from the documents the query returned.\<close>

definition batch_json :: "number \<Rightarrow> number \<Rightarrow> doc list \<Rightarrow> batch_body" where
  "batch_json pg lmt fs =
     (let geojsonFeatures = map to_geojson fs;
          has_more = (Num (int (length fs)) = lmt)
      in \<lparr> features = geojsonFeatures, page = pg, limit = lmt, hasMore = has_more,
           count = length geojsonFeatures \<rparr>)"

text \<open>The \<open>try\<close> block of the batch route (server.js 149-191).\<close>

definition batch_try :: "world \<Rightarrow> request \<Rightarrow> outcome \<Rightarrow> outcome attempt" where
  "batch_try w req out =
     (if readyState w \<noteq> 1 then Returned (json_reply 503 not_connected out)
      else
        let pg = page_of req; lmt = limit_of req; skip = js_times pg lmt
        in case find_page w skip lmt of
             Inl m \<Rightarrow> Threw m (awaited_query out)
           | Inr fs \<Rightarrow>
               Returned (json_reply 200 (BatchBody (batch_json pg lmt fs)) (awaited_query out)))"

text \<open>
  \<open>Math.min(1000 * Math.pow(2, attempt - 1), 5000)\<close>; the code evaluates it after
  \<open>attempt++\<close>, so \<open>attempt\<close> is at least 1 there.
\<close>

definition waitTime :: "nat \<Rightarrow> nat" where
  "waitTime attempt = min (1000 * 2 ^ (attempt - 1)) 5000"

definition batch_failed :: "js_string \<Rightarrow> body" where
  "batch_failed m =
     ErrorBody (js ''Failed to fetch batch after retries'') (Some m) (Some maxRetries)"

text \<open>
  The \<open>while\<close> loop with its \<open>catch\<close> block (server.js 148-210). \<open>env attempt\<close> is the world
  during the iteration that starts with \<open>attempt\<close> failures counted.
\<close>

function batch_loop :: "(nat \<Rightarrow> world) \<Rightarrow> request \<Rightarrow> nat \<Rightarrow> outcome \<Rightarrow> outcome" where
  "batch_loop env req attempt out =
     (if attempt < maxRetries then
        (case batch_try (env attempt) req out of
           Returned out' \<Rightarrow> out'
         | Threw m out' \<Rightarrow>
             if maxRetries \<le> attempt + 1 then json_reply 500 (batch_failed m) out'
             else batch_loop env req (attempt + 1) (awaited_timeout (waitTime (attempt + 1)) out'))
      else out)"
  by pat_completeness auto
termination
  by (relation "measure (\<lambda>(env, req, attempt, out). maxRetries - attempt)") auto

definition batch :: "(nat \<Rightarrow> world) \<Rightarrow> request \<Rightarrow> outcome" where
  "batch env req = batch_loop env req 0 start"

section \<open>GET /api/features/count\<close>

record count_cache =
  cachedCount :: "nat option"
  countCacheTime :: int

definition initial_cache :: count_cache where
  "initial_cache = \<lparr> cachedCount = None, countCacheTime = 0 \<rparr>"

definition COUNT_CACHE_TTL :: int where
  "COUNT_CACHE_TTL = 30000"

text \<open>The inner \<open>try\<close>/\<open>catch\<close> (server.js 113-120): the estimate, else the exact count.\<close>

definition count_query :: "world \<Rightarrow> outcome \<Rightarrow> (js_string + nat) \<times> outcome" where
  "count_query w out =
     (case estimatedDocumentCount w of
        Inr n \<Rightarrow> (Inr n, awaited_query out)
      | Inl _ \<Rightarrow> (countDocuments w, awaited_query (awaited_query out)))"

text \<open>Lines 110-125: query, then store the count with the time read before the query.\<close>

definition count_fresh ::
  "world \<Rightarrow> int \<Rightarrow> outcome \<times> count_cache \<Rightarrow> (outcome \<times> count_cache) attempt" where
  "count_fresh w now st =
     (case count_query w (fst st) of
        (Inl m, out') \<Rightarrow> Threw m (out', snd st)
      | (Inr n, out') \<Rightarrow>
          Returned (json_reply 200 (CountBody n False) out',
                    \<lparr> cachedCount = Some n, countCacheTime = now \<rparr>))"

text \<open>The \<open>try\<close> block of the count route (server.js 98-125).\<close>

definition count_try ::
  "world \<Rightarrow> outcome \<times> count_cache \<Rightarrow> (outcome \<times> count_cache) attempt" where
  "count_try w st =
     (if readyState w \<noteq> 1 then Returned (json_reply 503 not_connected (fst st), snd st)
      else
        let now = date_now w
        in case cachedCount (snd st) of
             None \<Rightarrow> count_fresh w now st
           | Some c \<Rightarrow>
               if now - countCacheTime (snd st) < COUNT_CACHE_TTL
               then Returned (json_reply 200 (CountBody c True) (fst st), snd st)
               else count_fresh w now st)"

definition count_failed :: "js_string \<Rightarrow> body" where
  "count_failed m = ErrorBody (js ''Failed to count features'') (Some m) None"

text \<open>The \<open>while\<close> loop with its \<open>catch\<close> block (server.js 97-140).\<close>

function count_loop ::
  "(nat \<Rightarrow> world) \<Rightarrow> nat \<Rightarrow> outcome \<times> count_cache \<Rightarrow> outcome \<times> count_cache" where
  "count_loop env attempt st =
     (if attempt < maxRetries then
        (case count_try (env attempt) st of
           Returned st' \<Rightarrow> st'
         | Threw m st' \<Rightarrow>
             if maxRetries \<le> attempt + 1 then (json_reply 500 (count_failed m) (fst st'), snd st')
             else count_loop env (attempt + 1)
                    (awaited_timeout (1000 * (attempt + 1)) (fst st'), snd st'))
      else st)"
  by pat_completeness auto
termination
  by (relation "measure (\<lambda>(env, attempt, st). maxRetries - attempt)") auto

definition count_route :: "(nat \<Rightarrow> world) \<Rightarrow> count_cache \<Rightarrow> outcome \<times> count_cache" where
  "count_route env cache = count_loop env 0 (start, cache)"

section \<open>GET /api/features\<close>

text \<open>The \<open>for await\<close> loop (server.js 227-237): one push for each document.\<close>

definition collect :: "doc list \<Rightarrow> feature list" where
  "collect docs = foldl (\<lambda>fs d. fs @ [to_geojson d]) [] docs"




section \<open>Notions the properties are stated with\<close>

text \<open>
  The test of line 105, \<open>cachedCount !== null && (now - countCacheTime) < COUNT_CACHE_TTL\<close>,
  at the time the world \<open>w\<close> shows.
\<close>

definition fresh :: "count_cache \<Rightarrow> world \<Rightarrow> bool" where
  "fresh c w \<longleftrightarrow>
     (case cachedCount c of
        None \<Rightarrow> False
      | Some _ \<Rightarrow> date_now w - countCacheTime c < COUNT_CACHE_TTL)"

text \<open>Attempt \<open>j\<close> of a batch request reaches the store and its query rejects with \<open>m\<close>.\<close>

definition threw_at :: "(nat \<Rightarrow> world) \<Rightarrow> request \<Rightarrow> nat \<Rightarrow> js_string \<Rightarrow> bool" where
  "threw_at env req j m \<longleftrightarrow>
     readyState (env j) = 1 \<and> find_page (env j) (skip_of req) (limit_of req) = Inl m"

text \<open>
  Attempt \<open>j\<close> of a count request reaches the store, and both the estimate and the exact
  count reject, the latter with \<open>m\<close>.
\<close>

definition count_threw :: "(nat \<Rightarrow> world) \<Rightarrow> count_cache \<Rightarrow> nat \<Rightarrow> js_string \<Rightarrow> bool" where
  "count_threw env c j m \<longleftrightarrow>
     readyState (env j) = 1 \<and> \<not> fresh c (env j) \<and>
     isl (estimatedDocumentCount (env j)) \<and> countDocuments (env j) = Inl m"

text \<open>The delays awaited before attempt \<open>k\<close> starts, in the batch and in the count route.\<close>

definition exponential_waits :: "nat \<Rightarrow> nat list" where
  "exponential_waits k = map waitTime [1..<Suc k]"

definition linear_waits :: "nat \<Rightarrow> nat list" where
  "linear_waits k = map (\<lambda>attempt. 1000 * attempt) [1..<Suc k]"

subsection \<open>Sample worlds and requests\<close>

definition rejecting :: "number \<Rightarrow> number \<Rightarrow> js_string + doc list" where
  "rejecting skip lmt = Inl (js ''bad value'')"

definition road :: doc where
  "road = \<lparr> doc_id = 3,
            doc_geometry = Some (JObj [(js ''type'', JStr (js ''LineString'')),
              (js ''coordinates'', JArr [JArr [JNum 1, JNum 2], JArr [JNum 3, JNum 4]])]),
            doc_properties = Some (JObj [(js ''name'', JStr (js ''A1''))]),
            doc_file = Some (JStr (js ''roads'')) \<rparr>"

definition bare :: doc where
  "bare = \<lparr> doc_id = 1, doc_geometry = None, doc_properties = None, doc_file = None \<rparr>"

definition untagged :: doc where
  "untagged = \<lparr> doc_id = 2, doc_geometry = None, doc_properties = Some (JObj []),
                doc_file = Some (JStr []) \<rparr>"

definition up :: world where
  "up = \<lparr> readyState = 1, date_now = 100000, query_ms = 0, collection = [road, bare, untagged],
          find_error = None, find_irregular = rejecting, estimated = Inr 3,
          count_error = None, cursor_error = None \<rparr>"

definition timing_out :: world where
  "timing_out = up \<lparr> find_error := Some (js ''timeout''), estimated := Inl (js ''no estimate''),
                     count_error := Some (js ''timeout''), cursor_error := Some (js ''timeout'') \<rparr>"

definition down :: world where
  "down = up \<lparr> readyState := 0 \<rparr>"

text \<open>A world that stays as it is, and one whose store times out for the first \<open>k\<close> attempts.\<close>

definition steady :: "world \<Rightarrow> nat \<Rightarrow> world" where
  "steady w attempt = w"

definition recovering :: "nat \<Rightarrow> nat \<Rightarrow> world" where
  "recovering k attempt = (if attempt < k then timing_out else up)"

definition second_page :: request where
  "second_page = \<lparr> query_page = Some (js ''1''), query_limit = Some (js ''2'') \<rparr>"

definition no_query :: request where
  "no_query = \<lparr> query_page = None, query_limit = None \<rparr>"

definition garbled :: request where
  "garbled = \<lparr> query_page = Some (js ''abc''), query_limit = Some (js ''ten'') \<rparr>"

definition zero_limit :: request where
  "zero_limit = \<lparr> query_page = Some (js ''0''), query_limit = Some (js ''0'') \<rparr>"

text \<open>Requests whose parameters start with a number and go on with something else.\<close>

definition trailing :: request where
  "trailing = \<lparr> query_page = Some (js ''12abc''), query_limit = None \<rparr>"

definition signed :: request where
  "signed = \<lparr> query_page = Some (js '' -5x''), query_limit = Some (js ''4abc'') \<rparr>"

text \<open>The features the three sample documents are to be answered as.\<close>

definition road_feature :: feature where
  "road_feature =
     \<lparr> f_type = js ''Feature'',
       f_geometry = JObj [(js ''type'', JStr (js ''LineString'')),
         (js ''coordinates'', JArr [JArr [JNum 1, JNum 2], JArr [JNum 3, JNum 4]])],
       f_properties = JObj [(js ''name'', JStr (js ''A1''))],
       f_file = JStr (js ''roads''),
       f_id = 3 \<rparr>"

definition bare_feature :: feature where
  "bare_feature =
     \<lparr> f_type = js ''Feature'',
       f_geometry = JObj [(js ''type'', JStr (js ''Point'')),
         (js ''coordinates'', JArr [JNum 0, JNum 0])],
       f_properties = JObj [],
       f_file = JStr (js ''default''),
       f_id = 1 \<rparr>"

definition untagged_feature :: feature where
  "untagged_feature = bare_feature \<lparr> f_id := 2 \<rparr>"

text \<open>
  A store whose count queries take a second, and the store recounted at 7 documents,
  30.5 s after \<open>up\<close>.
\<close>

definition slow :: world where
  "slow = up \<lparr> query_ms := 1000 \<rparr>"

definition recounted :: world where
  "recounted = up \<lparr> date_now := 130500, estimated := Inr 7 \<rparr>"

text \<open>The same world some milliseconds later, and the cache after a count of 3.\<close>

definition later :: "int \<Rightarrow> world \<Rightarrow> world" where
  "later ms w = w \<lparr> date_now := date_now w + ms \<rparr>"

definition counted :: count_cache where
  "counted = \<lparr> cachedCount = Some 3, countCacheTime = 100000 \<rparr>"

section \<open>The loops, unrolled\<close>

declare batch_loop.simps [simp del] count_loop.simps [simp del] bit_length.simps [simp del]

lemma bit_length_le: "n < 2 ^ m \<Longrightarrow> bit_length n \<le> m"
proof (induction m arbitrary: n)
  case 0
  then show ?case by (simp add: bit_length.simps)
next
  case (Suc m)
  then have "n div 2 < 2 ^ m" by simp
  with Suc.IH have "bit_length (n div 2) \<le> m" by blast
  then show ?case by (subst bit_length.simps) simp
qed

text \<open>A safe integer is a double: rounding leaves it as it is.\<close>

lemma round_to_53_small: "a < 2 ^ 53 \<Longrightarrow> round_to_53 a = a"
proof -
  assume "a < 2 ^ 53"
  then have "bit_length a - 53 = 0"
    using bit_length_le [of a 53] by simp
  then show ?thesis
    by (simp add: round_to_53_def)
qed

lemma to_number_safe: "\<bar>n\<bar> \<le> MAX_SAFE_INTEGER \<Longrightarrow> to_number n = Num n"
proof -
  assume safe: "\<bar>n\<bar> \<le> MAX_SAFE_INTEGER"
  then have small: "nat \<bar>n\<bar> < 2 ^ 53"
    by (simp add: MAX_SAFE_INTEGER_def nat_less_iff)
  have "(2::nat) ^ 53 \<le> 2 ^ 1024"
    by (rule power_increasing) simp_all
  with small have "\<not> 2 ^ 1024 \<le> nat \<bar>n\<bar>"
    by linarith
  with small show ?thesis
    by (simp add: to_number_def round_to_53_small Let_def)
qed

lemmas trace_defs = json_reply_def awaited_query_def awaited_timeout_def start_def

lemmas sample_defs = rejecting_def road_def bare_def untagged_def up_def timing_out_def down_def
  steady_def recovering_def second_page_def no_query_def trailing_def signed_def
  road_feature_def bare_feature_def untagged_feature_def slow_def recounted_def

lemmas parse_defs = parseInt_def js_def strip_sign_def strip_prefix_def is_digit_def
  digit_value_def digits_value_def to_number_safe MAX_SAFE_INTEGER_def is_white_space_def
  ToString_def or_default_def page_of_def limit_of_def skip_of_def js_times_def

lemma ex_less_3: "(\<exists>k<3::nat. P k) \<longleftrightarrow> P 0 \<or> P (Suc 0) \<or> P (Suc (Suc 0))"
  by (auto simp: numeral_3_eq_3 less_Suc_eq)

lemma all_less_3: "(\<forall>k<3::nat. P k) \<longleftrightarrow> P 0 \<and> P (Suc 0) \<and> P (Suc (Suc 0))"
  by (auto simp: numeral_3_eq_3 less_Suc_eq)

lemma all_less_2: "(\<forall>k<Suc (Suc 0). P k) \<longleftrightarrow> P 0 \<and> P (Suc 0)"
  by (auto simp: less_Suc_eq)

lemma length_exponential_waits: "length (exponential_waits k) = k"
  by (simp add: exponential_waits_def)

lemma length_linear_waits: "length (linear_waits k) = k"
  by (simp add: linear_waits_def)

lemma batch_loop_2:
  "batch_loop env req (Suc (Suc 0)) out =
     (case batch_try (env (Suc (Suc 0))) req out of
        Returned out' \<Rightarrow> out'
      | Threw m out' \<Rightarrow> json_reply 500 (batch_failed m) out')"
  by (subst batch_loop.simps) (simp add: maxRetries_def split: attempt.split)

lemma batch_loop_1:
  "batch_loop env req (Suc 0) out =
     (case batch_try (env (Suc 0)) req out of
        Returned out' \<Rightarrow> out'
      | Threw m out' \<Rightarrow> batch_loop env req (Suc (Suc 0)) (awaited_timeout 2000 out'))"
  by (subst batch_loop.simps) (simp add: maxRetries_def waitTime_def split: attempt.split)

lemma batch_loop_0:
  "batch_loop env req 0 out =
     (case batch_try (env 0) req out of
        Returned out' \<Rightarrow> out'
      | Threw m out' \<Rightarrow> batch_loop env req (Suc 0) (awaited_timeout 1000 out'))"
  by (subst batch_loop.simps) (simp add: maxRetries_def waitTime_def split: attempt.split)

lemmas batch_unroll = batch_def batch_loop_0 batch_loop_1 batch_loop_2

text \<open>
  Every run of the batch route: some attempt \<open>k\<close> finds the store not ready, or gets the
  page, after \<open>k\<close> attempts whose query rejected; or all three queries reject.
\<close>

lemma batch_outcomes:
  "(\<exists>k<3. (\<forall>j<k. \<exists>m. threw_at env req j m) \<and> readyState (env k) \<noteq> 1 \<and>
        batch env req =
          \<lparr> sent = Some \<lparr> status = 503, body = not_connected \<rparr>,
            waits = exponential_waits k, queries = k \<rparr>)
   \<or> (\<exists>k<3. \<exists>fs. (\<forall>j<k. \<exists>m. threw_at env req j m) \<and> readyState (env k) = 1 \<and>
        find_page (env k) (skip_of req) (limit_of req) = Inr fs \<and>
        batch env req =
          \<lparr> sent = Some \<lparr> status = 200,
                           body = BatchBody (batch_json (page_of req) (limit_of req) fs) \<rparr>,
            waits = exponential_waits k, queries = Suc k \<rparr>)
   \<or> (\<exists>m. (\<forall>j<2. \<exists>m. threw_at env req j m) \<and> threw_at env req 2 m \<and>
        batch env req =
          \<lparr> sent = Some \<lparr> status = 500, body = batch_failed m \<rparr>,
            waits = [1000, 2000], queries = 3 \<rparr>)"
  unfolding ex_less_3 threw_at_def exponential_waits_def
  by (auto simp add: batch_unroll batch_try_def skip_of_def Let_def trace_defs waitTime_def
        all_less_2 numeral_2_eq_2 upt_rec split: sum.splits)

lemma count_loop_2:
  "count_loop env (Suc (Suc 0)) st =
     (case count_try (env (Suc (Suc 0))) st of
        Returned st' \<Rightarrow> st'
      | Threw m st' \<Rightarrow> (json_reply 500 (count_failed m) (fst st'), snd st'))"
  by (subst count_loop.simps) (simp add: maxRetries_def split: attempt.split)

lemma count_loop_1:
  "count_loop env (Suc 0) st =
     (case count_try (env (Suc 0)) st of
        Returned st' \<Rightarrow> st'
      | Threw m st' \<Rightarrow>
          count_loop env (Suc (Suc 0)) (awaited_timeout 2000 (fst st'), snd st'))"
  by (subst count_loop.simps) (simp add: maxRetries_def split: attempt.split)

lemma count_loop_0:
  "count_loop env 0 st =
     (case count_try (env 0) st of
        Returned st' \<Rightarrow> st'
      | Threw m st' \<Rightarrow> count_loop env (Suc 0) (awaited_timeout 1000 (fst st'), snd st'))"
  by (subst count_loop.simps) (simp add: maxRetries_def split: attempt.split)

lemmas count_unroll = count_route_def count_loop_0 count_loop_1 count_loop_2

text \<open>
  Every run of the count route: some attempt \<open>k\<close> finds the store not ready, or answers from
  the cache, or counts (by the estimate, or by the exact count after the estimate rejected),
  after \<open>k\<close> attempts whose two queries rejected; or all three attempts end so.
\<close>

lemma count_outcomes:
  "(\<exists>k<3. (\<forall>j<k. \<exists>m. count_threw env c j m) \<and> readyState (env k) \<noteq> 1 \<and>
        count_route env c =
          (\<lparr> sent = Some \<lparr> status = 503, body = not_connected \<rparr>,
             waits = linear_waits k, queries = 2 * k \<rparr>, c))
   \<or> (\<exists>k<3. \<exists>n. (\<forall>j<k. \<exists>m. count_threw env c j m) \<and> readyState (env k) = 1 \<and>
        fresh c (env k) \<and> cachedCount c = Some n \<and>
        count_route env c =
          (\<lparr> sent = Some \<lparr> status = 200, body = CountBody n True \<rparr>,
             waits = linear_waits k, queries = 2 * k \<rparr>, c))
   \<or> (\<exists>k<3. \<exists>n. (\<forall>j<k. \<exists>m. count_threw env c j m) \<and> readyState (env k) = 1 \<and>
        \<not> fresh c (env k) \<and> estimatedDocumentCount (env k) = Inr n \<and>
        count_route env c =
          (\<lparr> sent = Some \<lparr> status = 200, body = CountBody n False \<rparr>,
             waits = linear_waits k, queries = 2 * k + 1 \<rparr>,
           \<lparr> cachedCount = Some n, countCacheTime = date_now (env k) \<rparr>))
   \<or> (\<exists>k<3. \<exists>n. (\<forall>j<k. \<exists>m. count_threw env c j m) \<and> readyState (env k) = 1 \<and>
        \<not> fresh c (env k) \<and> (\<exists>e. estimatedDocumentCount (env k) = Inl e) \<and>
        countDocuments (env k) = Inr n \<and>
        count_route env c =
          (\<lparr> sent = Some \<lparr> status = 200, body = CountBody n False \<rparr>,
             waits = linear_waits k, queries = 2 * k + 2 \<rparr>,
           \<lparr> cachedCount = Some n, countCacheTime = date_now (env k) \<rparr>))
   \<or> (\<exists>m. (\<forall>j<2. \<exists>m. count_threw env c j m) \<and> count_threw env c 2 m \<and>
        count_route env c =
          (\<lparr> sent = Some \<lparr> status = 500, body = count_failed m \<rparr>,
             waits = [1000, 2000], queries = 6 \<rparr>, c))"
  unfolding ex_less_3 count_threw_def fresh_def linear_waits_def
  by (auto simp add: count_unroll count_try_def count_fresh_def count_query_def Let_def
        trace_defs all_less_2 numeral_2_eq_2 upt_rec split: sum.splits option.splits)

section \<open>The batch route\<close>

lemma absent_is_NaN: "parseInt (ToString None) = NaN"
  by (simp add: parse_defs)

lemma page_of_cases:
  "page_of req =
     (if parseInt (ToString (query_page req)) = NaN then Num 0
      else parseInt (ToString (query_page req)))"
  by (simp add: page_of_def or_default_def)

lemma limit_of_cases:
  "limit_of req =
     (if parseInt (ToString (query_limit req)) = NaN
         \<or> parseInt (ToString (query_limit req)) = Num 0 then Num 500
      else parseInt (ToString (query_limit req)))"
  by (simp add: limit_of_def or_default_def)

text \<open>The response body, field by field.\<close>

lemma batch_json_fields:
  "batch_json pg lmt fs =
     \<lparr> features = map (\<lambda>d.
         \<lparr> f_type = js ''Feature'',
           f_geometry = (case doc_geometry d of
               None \<Rightarrow> JObj [(js ''type'', JStr (js ''Point'')),
                              (js ''coordinates'', JArr [JNum 0, JNum 0])]
             | Some g \<Rightarrow> if truthy g then g
                 else JObj [(js ''type'', JStr (js ''Point'')),
                            (js ''coordinates'', JArr [JNum 0, JNum 0])]),
           f_properties = (case doc_properties d of
               None \<Rightarrow> JObj [] | Some x \<Rightarrow> if truthy x then x else JObj []),
           f_file = (case doc_file d of
               None \<Rightarrow> JStr (js ''default'')
             | Some t \<Rightarrow> if truthy t then t else JStr (js ''default'')),
           f_id = doc_id d \<rparr>) fs,
       page = pg, limit = lmt, hasMore = (Num (int (length fs)) = lmt), count = length fs \<rparr>"
proof -
  have "to_geojson = (\<lambda>d.
         \<lparr> f_type = js ''Feature'',
           f_geometry = (case doc_geometry d of
               None \<Rightarrow> JObj [(js ''type'', JStr (js ''Point'')),
                              (js ''coordinates'', JArr [JNum 0, JNum 0])]
             | Some g \<Rightarrow> if truthy g then g
                 else JObj [(js ''type'', JStr (js ''Point'')),
                            (js ''coordinates'', JArr [JNum 0, JNum 0])]),
           f_properties = (case doc_properties d of
               None \<Rightarrow> JObj [] | Some x \<Rightarrow> if truthy x then x else JObj []),
           f_file = (case doc_file d of
               None \<Rightarrow> JStr (js ''default'')
             | Some t \<Rightarrow> if truthy t then t else JStr (js ''default'')),
           f_id = doc_id d \<rparr>)"
    by (rule ext) (simp add: to_geojson_def js_or_def default_geometry_def)
  then show ?thesis
    by (simp add: batch_json_def)
qed

lemma find_page_regular:
  "find_page w (Num s) (Num l) = Inr fs \<Longrightarrow> 0 \<le> s \<Longrightarrow> s \<le> MAX_SAFE_INTEGER \<Longrightarrow>
   0 < l \<Longrightarrow> l \<le> MAX_SAFE_INTEGER \<Longrightarrow>
   fs = take (nat l) (drop (nat s) (sort_key doc_id (collection w)))"
  by (auto simp: find_page_def split: option.splits)

lemma skip_regular:
  "page_of req = Num p \<Longrightarrow> limit_of req = Num l \<Longrightarrow> 0 \<le> p \<Longrightarrow> 0 < l \<Longrightarrow>
   p * l \<le> MAX_SAFE_INTEGER \<Longrightarrow> skip_of req = Num (p * l)"
  by (simp add: skip_of_def js_times_def to_number_safe abs_mult)

text \<open>A success response comes from the attempt that follows the delays awaited.\<close>

lemma batch_ok_cases:
  assumes "sent (batch env req) = Some \<lparr> status = 200, body = BatchBody b \<rparr>"
  obtains fs where
    "find_page (env (length (waits (batch env req)))) (skip_of req) (limit_of req) = Inr fs"
    "b = batch_json (page_of req) (limit_of req) fs"
    "readyState (env (length (waits (batch env req)))) = 1"
  using batch_outcomes [of env req] assms
  by (auto simp: not_connected_def batch_failed_def length_exponential_waits)

lemma second_page_up:
  "batch (steady up) second_page =
     \<lparr> sent = Some \<lparr> status = 200, body = BatchBody
         \<lparr> features = [road_feature], page = Num 1, limit = Num 2, hasMore = False, count = 1 \<rparr> \<rparr>,
       waits = [], queries = 1 \<rparr>"
  by (simp add: batch_unroll batch_try_def Let_def trace_defs sample_defs parse_defs find_page_def
        batch_json_fields)

lemma no_query_up:
  "batch (steady up) no_query =
     \<lparr> sent = Some \<lparr> status = 200, body = BatchBody
         \<lparr> features = [bare_feature, untagged_feature, road_feature], page = Num 0,
           limit = Num 500, hasMore = False, count = 3 \<rparr> \<rparr>,
       waits = [], queries = 1 \<rparr>"
  by (simp add: batch_unroll batch_try_def Let_def trace_defs sample_defs parse_defs find_page_def
        batch_json_fields)

text \<open>
  C1, as stated, fails for a parameter that is malformed but starts with a number:
  \<open>page=12abc\<close> is answered as page 12, not as the default page 0.
\<close>

theorem batch_trailing_page_counterexample:
  "query_page trailing = Some (js ''12abc'')
   \<and> sent (batch (steady up) trailing) =
       Some \<lparr> status = 200, body = BatchBody
         \<lparr> features = [], page = Num 12, limit = Num 500, hasMore = False, count = 0 \<rparr> \<rparr>"
  by (simp add: batch_unroll batch_try_def Let_def trace_defs sample_defs parse_defs find_page_def
        batch_json_fields)

text \<open>
  C1, amended. Every batch request that is answered with a page: \<open>page\<close> and \<open>limit\<close> are
  the numbers \<open>parseInt\<close> reads from the parameters (the integer a parameter starts with,
  whatever follows it), with 0 in place of a page and 500 in place of a limit that is
  absent, in which \<open>parseInt\<close> finds no number, or that it reads as 0; \<open>skip\<close> is
  \<open>page * limit\<close>; and for a page \<open>\<ge> 0\<close> and a limit \<open>> 0\<close> (skip and limit safe integers)
  the features are the documents of the store at the answering attempt, sorted ascending
  by \<open>_id\<close>, without the first \<open>skip\<close>, at most \<open>limit\<close> of them, in that order. Each
  document becomes a feature of type \<open>Feature\<close> with its \<open>_id\<close>, its geometry, properties and
  file tag where it has them (truthy), and otherwise the point at \<open>[0, 0]\<close>, the empty
  object and the tag \<open>default\<close>. An empty store gives no feature, \<open>hasMore = false\<close> and
  \<open>count = 0\<close>.
\<close>

theorem batch_page_contract:
  assumes "sent (batch env req) = Some \<lparr> status = 200, body = BatchBody b \<rparr>"
  shows "page b =
      (if parseInt (ToString (query_page req)) = NaN then Num 0
       else parseInt (ToString (query_page req)))
    \<and> limit b =
      (if parseInt (ToString (query_limit req)) = NaN
          \<or> parseInt (ToString (query_limit req)) = Num 0 then Num 500
       else parseInt (ToString (query_limit req)))
    \<and> (query_page req = None \<longrightarrow> page b = Num 0)
    \<and> (query_limit req = None \<longrightarrow> limit b = Num 500)
    \<and> skip_of req = js_times (page b) (limit b)
    \<and> (page b = Num p \<and> limit b = Num l \<and> 0 \<le> p \<and> 0 < l
          \<and> l \<le> MAX_SAFE_INTEGER \<and> p * l \<le> MAX_SAFE_INTEGER \<longrightarrow>
        skip_of req = Num (p * l) \<and>
        features b = map (\<lambda>d.
            \<lparr> f_type = js ''Feature'',
              f_geometry = (case doc_geometry d of
                  None \<Rightarrow> JObj [(js ''type'', JStr (js ''Point'')),
                                 (js ''coordinates'', JArr [JNum 0, JNum 0])]
                | Some g \<Rightarrow> if truthy g then g
                    else JObj [(js ''type'', JStr (js ''Point'')),
                               (js ''coordinates'', JArr [JNum 0, JNum 0])]),
              f_properties = (case doc_properties d of
                  None \<Rightarrow> JObj [] | Some x \<Rightarrow> if truthy x then x else JObj []),
              f_file = (case doc_file d of
                  None \<Rightarrow> JStr (js ''default'')
                | Some t \<Rightarrow> if truthy t then t else JStr (js ''default'')),
              f_id = doc_id d \<rparr>)
          (take (nat l) (drop (nat (p * l))
            (sort_key doc_id (collection (env (length (waits (batch env req)))))))) \<and>
        (collection (env (length (waits (batch env req)))) = [] \<longrightarrow>
           features b = [] \<and> \<not> hasMore b \<and> count b = 0))"
proof -
  let ?w = "env (length (waits (batch env req)))"
  from assms obtain fs where
    fs: "find_page ?w (skip_of req) (limit_of req) = Inr fs"
    and b: "b = batch_json (page_of req) (limit_of req) fs"
    by (rule batch_ok_cases)
  have pl: "page b = page_of req" "limit b = limit_of req"
    "hasMore b = (Num (int (length fs)) = limit_of req)" "count b = length fs"
    by (simp_all add: b batch_json_def)
  have absent: "query_page req = None \<longrightarrow> page_of req = Num 0"
    "query_limit req = None \<longrightarrow> limit_of req = Num 500"
    by (simp_all add: page_of_def limit_of_def or_default_def absent_is_NaN)
  have skip: "skip_of req = js_times (page b) (limit b)"
    by (simp add: pl skip_of_def)
  have page: "skip_of req = Num (p * l) \<and> fs = take (nat l) (drop (nat (p * l))
        (sort_key doc_id (collection ?w)))
      \<and> (collection ?w = [] \<longrightarrow> fs = [] \<and> \<not> hasMore b \<and> count b = 0)"
    if valid: "page b = Num p \<and> limit b = Num l \<and> 0 \<le> p \<and> 0 < l
      \<and> l \<le> MAX_SAFE_INTEGER \<and> p * l \<le> MAX_SAFE_INTEGER"
  proof -
    from valid have s: "skip_of req = Num (p * l)"
      by (simp add: pl skip_regular)
    from valid have "0 \<le> p * l" by simp
    with fs s valid have fs': "fs = take (nat l) (drop (nat (p * l)) (sort_key doc_id (collection ?w)))"
      using find_page_regular [of ?w "p * l" l fs] by (simp add: pl)
    from valid have "collection ?w = [] \<longrightarrow> fs = [] \<and> Num (int (length fs)) \<noteq> limit_of req"
      by (auto simp: fs' pl)
    with s fs' show ?thesis
      by (simp add: pl)
  qed
  have "features b = features (batch_json (page_of req) (limit_of req) fs)"
    by (simp add: b)
  then show ?thesis
    using pl(1,2) absent skip page
    by (simp add: batch_json_fields page_of_cases [symmetric] limit_of_cases [symmetric])
qed

theorem batch_page_contract_witness:
  "sent (batch (steady up) second_page) =
     Some \<lparr> status = 200, body = BatchBody
       \<lparr> features = [road_feature], page = Num 1, limit = Num 2, hasMore = False, count = 1 \<rparr> \<rparr>
   \<and> skip_of second_page = Num 2
   \<and> take 2 (drop 2 (sort_key doc_id (collection up))) = [road]
   \<and> sent (batch (steady up) no_query) =
     Some \<lparr> status = 200, body = BatchBody
       \<lparr> features = [bare_feature, untagged_feature, road_feature], page = Num 0,
         limit = Num 500, hasMore = False, count = 3 \<rparr> \<rparr>
   \<and> skip_of no_query = Num 0
   \<and> take 500 (drop 0 (sort_key doc_id (collection up))) = [bare, untagged, road]"
proof -
  let ?b = "\<lparr> features = [road_feature], page = Num 1, limit = Num 2, hasMore = False, count = 1 \<rparr>"
  let ?c = "\<lparr> features = [bare_feature, untagged_feature, road_feature], page = Num 0,
         limit = Num 500, hasMore = False, count = 3 \<rparr>"
  have ok: "sent (batch (steady up) second_page) = Some \<lparr> status = 200, body = BatchBody ?b \<rparr>"
    by (simp add: second_page_up)
  have ok': "sent (batch (steady up) no_query) = Some \<lparr> status = 200, body = BatchBody ?c \<rparr>"
    by (simp add: no_query_up)
  have valid: "page ?b = Num 1 \<and> limit ?b = Num 2 \<and> (0::int) \<le> 1 \<and> (0::int) < 2
      \<and> (2::int) \<le> MAX_SAFE_INTEGER \<and> (1::int) * 2 \<le> MAX_SAFE_INTEGER"
    by (simp add: MAX_SAFE_INTEGER_def)
  have valid': "page ?c = Num 0 \<and> limit ?c = Num 500 \<and> (0::int) \<le> 0 \<and> (0::int) < 500
      \<and> (500::int) \<le> MAX_SAFE_INTEGER \<and> (0::int) * 500 \<le> MAX_SAFE_INTEGER"
    by (simp add: MAX_SAFE_INTEGER_def)
  have pages: "take 2 (drop 2 (sort_key doc_id (collection up))) = [road]"
    "take 500 (drop 0 (sort_key doc_id (collection up))) = [bare, untagged, road]"
    by (simp_all add: sample_defs)
  from batch_page_contract [OF ok, of 1 2] valid have "skip_of second_page = Num (1 * 2)"
    by blast
  moreover from batch_page_contract [OF ok', of 0 500] valid' have "skip_of no_query = Num (0 * 500)"
    by blast
  ultimately show ?thesis
    using ok ok' pages by simp
qed

lemma first_page_of_one:
  "batch (steady up) \<lparr> query_page = None, query_limit = Some (js ''1'') \<rparr> =
     \<lparr> sent = Some \<lparr> status = 200, body = BatchBody (batch_json (Num 0) (Num 1) [bare]) \<rparr>,
       waits = [], queries = 1 \<rparr>"
  by (simp add: batch_unroll batch_try_def Let_def trace_defs sample_defs parse_defs find_page_def)

lemma batch_after_throws:
  assumes "\<forall>j<k. readyState (env j) = 1 \<and> find_page (env j) (skip_of req) (limit_of req) = Inl (m j)"
  shows "k = 3 \<longrightarrow> batch env req =
        \<lparr> sent = Some \<lparr> status = 500, body = batch_failed (m 2) \<rparr>, waits = [1000, 2000], queries = 3 \<rparr>"
    and "k < 3 \<and> readyState (env k) = 1 \<and> find_page (env k) (skip_of req) (limit_of req) = Inr fs \<longrightarrow>
      batch env req =
        \<lparr> sent = Some \<lparr> status = 200, body = BatchBody (batch_json (page_of req) (limit_of req) fs) \<rparr>,
          waits = exponential_waits k, queries = Suc k \<rparr>"
proof -
  have threw: "batch_try (env j) req out = Threw (m j) (awaited_query out)" if "j < k" for j out
    using assms that by (simp add: batch_try_def skip_of_def Let_def)
  show "k = 3 \<longrightarrow> batch env req =
        \<lparr> sent = Some \<lparr> status = 500, body = batch_failed (m 2) \<rparr>, waits = [1000, 2000], queries = 3 \<rparr>"
    by (auto simp add: batch_unroll threw trace_defs numeral_2_eq_2)
  have page: "batch_try (env k) req out =
      Returned (json_reply 200 (BatchBody (batch_json (page_of req) (limit_of req) fs)) (awaited_query out))"
    if "readyState (env k) = 1" "find_page (env k) (skip_of req) (limit_of req) = Inr fs" for out
    using that by (simp add: batch_try_def skip_of_def Let_def)
  have "batch env req =
        \<lparr> sent = Some \<lparr> status = 200, body = BatchBody (batch_json (page_of req) (limit_of req) fs) \<rparr>,
          waits = exponential_waits k, queries = Suc k \<rparr>"
    if k: "k < 3" and ok: "readyState (env k) = 1" "find_page (env k) (skip_of req) (limit_of req) = Inr fs"
  proof -
    from k consider "k = 0" | "k = Suc 0" | "k = Suc (Suc 0)"
      by linarith
    then show ?thesis
    proof cases
      case 1
      with page [OF ok] show ?thesis
        by (simp add: batch_unroll trace_defs exponential_waits_def)
    next
      case 2
      with page [OF ok] threw [of 0] show ?thesis
        by (simp add: batch_unroll trace_defs exponential_waits_def waitTime_def)
    next
      case 3
      with page [OF ok] threw [of 0] threw [of "Suc 0"] show ?thesis
        by (simp add: batch_unroll trace_defs exponential_waits_def waitTime_def upt_rec)
    qed
  qed
  then show "k < 3 \<and> readyState (env k) = 1 \<and> find_page (env k) (skip_of req) (limit_of req) = Inr fs \<longrightarrow>
      batch env req =
        \<lparr> sent = Some \<lparr> status = 200, body = BatchBody (batch_json (page_of req) (limit_of req) fs) \<rparr>,
          waits = exponential_waits k, queries = Suc k \<rparr>"
    by blast
qed

lemma timing_out_throws:
  "readyState timing_out = 1 \<and> find_page timing_out skip lmt = Inl (js ''timeout'')"
  by (simp add: timing_out_def up_def find_page_def)

text \<open>
  C2. A batch request with a page \<open>\<ge> 0\<close> and a limit \<open>> 0\<close> that is answered with a page:
  \<open>hasMore\<close> is true exactly when the number of documents the store returned, which is the
  number of features, equals the limit; \<open>count\<close> is the number of features.
\<close>

theorem batch_hasMore:
  assumes "sent (batch env req) = Some \<lparr> status = 200, body = BatchBody b \<rparr>"
    and "page b = Num p" and "0 \<le> p" and "limit b = Num l" and "0 < l"
  shows "(\<exists>fs. find_page (env (length (waits (batch env req)))) (skip_of req) (limit_of req) = Inr fs
            \<and> features b = map to_geojson fs \<and> (hasMore b \<longleftrightarrow> int (length fs) = l))
    \<and> (hasMore b \<longleftrightarrow> int (length (features b)) = l)
    \<and> count b = length (features b)"
proof -
  from assms(1) obtain fs where
    fs: "find_page (env (length (waits (batch env req)))) (skip_of req) (limit_of req) = Inr fs"
    and b: "b = batch_json (page_of req) (limit_of req) fs"
    by (rule batch_ok_cases)
  from assms(4) have l: "limit_of req = Num l"
    by (simp add: b batch_json_def)
  have "features b = map to_geojson fs" "hasMore b \<longleftrightarrow> int (length fs) = l"
    "count b = length (features b)"
    by (simp_all add: b batch_json_def l)
  with fs show ?thesis by auto
qed

theorem batch_hasMore_witness:
  "sent (batch (steady up) \<lparr> query_page = None, query_limit = Some (js ''1'') \<rparr>) =
     Some \<lparr> status = 200, body = BatchBody (batch_json (Num 0) (Num 1) [bare]) \<rparr>
   \<and> hasMore (batch_json (Num 0) (Num 1) [bare])
   \<and> int (length (features (batch_json (Num 0) (Num 1) [bare]))) = 1
   \<and> count (batch_json (Num 0) (Num 1) [bare]) = 1"
proof -
  let ?b = "batch_json (Num 0) (Num 1) [bare]"
  have ok: "sent (batch (steady up) \<lparr> query_page = None, query_limit = Some (js ''1'') \<rparr>) =
      Some \<lparr> status = 200, body = BatchBody ?b \<rparr>"
    by (simp add: first_page_of_one)
  have valid: "page ?b = Num 0" "(0::int) \<le> 0" "limit ?b = Num 1" "(0::int) < 1"
    by (simp_all add: batch_json_def)
  have len: "int (length (features ?b)) = 1"
    by (simp add: batch_json_def)
  from batch_hasMore [OF ok valid] len show ?thesis
    using ok by simp
qed

text \<open>
  C4. A batch or a count request that finds \<open>readyState\<close> other than 1 when it starts is
  answered 503 with the body \<open>{ error: "Database not connected" }\<close>, after no store
  operation and no delay; the count cache stays as it was.
\<close>

theorem not_ready_503:
  assumes "readyState (env 0) \<noteq> 1"
  shows "batch env req =
      \<lparr> sent = Some \<lparr> status = 503, body = ErrorBody (js ''Database not connected'') None None \<rparr>,
        waits = [], queries = 0 \<rparr>
    \<and> count_route env c =
      (\<lparr> sent = Some \<lparr> status = 503, body = ErrorBody (js ''Database not connected'') None None \<rparr>,
         waits = [], queries = 0 \<rparr>, c)"
  using assms
  by (simp add: batch_unroll batch_try_def count_unroll count_try_def trace_defs not_connected_def)

theorem not_ready_503_witness:
  "readyState (steady down 0) \<noteq> 1
   \<and> batch (steady down) second_page =
      \<lparr> sent = Some \<lparr> status = 503, body = ErrorBody (js ''Database not connected'') None None \<rparr>,
        waits = [], queries = 0 \<rparr>
   \<and> count_route (steady down) initial_cache =
      (\<lparr> sent = Some \<lparr> status = 503, body = ErrorBody (js ''Database not connected'') None None \<rparr>,
         waits = [], queries = 0 \<rparr>, initial_cache)"
proof -
  have "readyState (steady down 0) \<noteq> 1"
    by (simp add: steady_def down_def up_def)
  from this not_ready_503 [of "steady down" second_page initial_cache] show ?thesis by simp
qed

text \<open>
  C5. A batch request whose first \<open>k\<close> attempts reach the store and have their query
  rejected. With \<open>k = maxRetries = 3\<close> the answer is 500 with the message of the last error
  and \<open>attempts: 3\<close>, after three queries and the two delays
  \<open>min(1000 * 2^(attempt - 1), 5000)\<close> for \<open>attempt\<close> 1 and 2 (1000 and 2000 ms), none
  after the last failure. With \<open>k < 3\<close> and a query that succeeds at attempt \<open>k\<close>, the answer
  is the success response for the documents of that query, after the delays for
  \<open>attempt\<close> 1 to \<open>k\<close>: each document as its feature, in the order returned, with the
  request's page and limit, \<open>hasMore\<close> comparing their number with the limit, and \<open>count\<close>
  their number; for a page \<open>\<ge> 0\<close> and a limit \<open>> 0\<close> the documents are the page of the store
  as it is at attempt \<open>k\<close>.
\<close>

theorem batch_retry_policy:
  assumes "k \<le> maxRetries"
    and "\<forall>j<k. readyState (env j) = 1 \<and> find_page (env j) (skip_of req) (limit_of req) = Inl (m j)"
  shows "(k = maxRetries \<longrightarrow>
        batch env req =
          \<lparr> sent = Some \<lparr> status = 500,
               body = ErrorBody (js ''Failed to fetch batch after retries'') (Some (m 2)) (Some 3) \<rparr>,
            waits = [min (1000 * 2 ^ (1 - 1)) 5000, min (1000 * 2 ^ (2 - 1)) 5000],
            queries = 3 \<rparr>)
    \<and> (k < maxRetries \<and> readyState (env k) = 1
          \<and> find_page (env k) (skip_of req) (limit_of req) = Inr fs \<longrightarrow>
        batch env req =
          \<lparr> sent = Some \<lparr> status = 200, body = BatchBody
               \<lparr> features = map (\<lambda>d.
                   \<lparr> f_type = js ''Feature'',
                     f_geometry = (case doc_geometry d of
                         None \<Rightarrow> JObj [(js ''type'', JStr (js ''Point'')),
                                        (js ''coordinates'', JArr [JNum 0, JNum 0])]
                       | Some g \<Rightarrow> if truthy g then g
                           else JObj [(js ''type'', JStr (js ''Point'')),
                                      (js ''coordinates'', JArr [JNum 0, JNum 0])]),
                     f_properties = (case doc_properties d of
                         None \<Rightarrow> JObj [] | Some x \<Rightarrow> if truthy x then x else JObj []),
                     f_file = (case doc_file d of
                         None \<Rightarrow> JStr (js ''default'')
                       | Some t \<Rightarrow> if truthy t then t else JStr (js ''default'')),
                     f_id = doc_id d \<rparr>) fs,
                 page = page_of req, limit = limit_of req,
                 hasMore = (Num (int (length fs)) = limit_of req), count = length fs \<rparr> \<rparr>,
            waits = map (\<lambda>attempt. min (1000 * 2 ^ (attempt - 1)) 5000) [1..<Suc k],
            queries = Suc k \<rparr>
        \<and> (page_of req = Num p \<and> limit_of req = Num l \<and> 0 \<le> p \<and> 0 < l
              \<and> l \<le> MAX_SAFE_INTEGER \<and> p * l \<le> MAX_SAFE_INTEGER \<longrightarrow>
            fs = take (nat l) (drop (nat (p * l)) (sort_key doc_id (collection (env k))))))"
proof -
  have "fs = take (nat l) (drop (nat (p * l)) (sort_key doc_id (collection (env k))))"
    if found: "find_page (env k) (skip_of req) (limit_of req) = Inr fs"
      and valid: "page_of req = Num p \<and> limit_of req = Num l \<and> 0 \<le> p \<and> 0 < l
        \<and> l \<le> MAX_SAFE_INTEGER \<and> p * l \<le> MAX_SAFE_INTEGER"
  proof -
    from valid have "skip_of req = Num (p * l)" "0 \<le> p * l"
      by (simp_all add: skip_regular)
    with found valid show ?thesis
      using find_page_regular [of "env k" "p * l" l fs] by simp
  qed
  moreover have "k = maxRetries \<longrightarrow>
        batch env req =
          \<lparr> sent = Some \<lparr> status = 500,
               body = ErrorBody (js ''Failed to fetch batch after retries'') (Some (m 2)) (Some 3) \<rparr>,
            waits = [min (1000 * 2 ^ (1 - 1)) 5000, min (1000 * 2 ^ (2 - 1)) 5000],
            queries = 3 \<rparr>"
    using batch_after_throws(1) [OF assms(2)]
    by (simp add: maxRetries_def batch_failed_def)
  moreover have "k < maxRetries \<and> readyState (env k) = 1
          \<and> find_page (env k) (skip_of req) (limit_of req) = Inr fs \<longrightarrow>
        batch env req =
          \<lparr> sent = Some \<lparr> status = 200, body = BatchBody
               \<lparr> features = map (\<lambda>d.
                   \<lparr> f_type = js ''Feature'',
                     f_geometry = (case doc_geometry d of
                         None \<Rightarrow> JObj [(js ''type'', JStr (js ''Point'')),
                                        (js ''coordinates'', JArr [JNum 0, JNum 0])]
                       | Some g \<Rightarrow> if truthy g then g
                           else JObj [(js ''type'', JStr (js ''Point'')),
                                      (js ''coordinates'', JArr [JNum 0, JNum 0])]),
                     f_properties = (case doc_properties d of
                         None \<Rightarrow> JObj [] | Some x \<Rightarrow> if truthy x then x else JObj []),
                     f_file = (case doc_file d of
                         None \<Rightarrow> JStr (js ''default'')
                       | Some t \<Rightarrow> if truthy t then t else JStr (js ''default'')),
                     f_id = doc_id d \<rparr>) fs,
                 page = page_of req, limit = limit_of req,
                 hasMore = (Num (int (length fs)) = limit_of req), count = length fs \<rparr> \<rparr>,
            waits = map (\<lambda>attempt. min (1000 * 2 ^ (attempt - 1)) 5000) [1..<Suc k],
            queries = Suc k \<rparr>"
    using batch_after_throws(2) [OF assms(2), where fs = fs]
    by (simp add: maxRetries_def exponential_waits_def waitTime_def batch_json_fields)
  ultimately show ?thesis
    by blast
qed

theorem batch_retry_policy_witness:
  "batch (steady timing_out) second_page =
     \<lparr> sent = Some \<lparr> status = 500,
          body = ErrorBody (js ''Failed to fetch batch after retries'') (Some (js ''timeout'')) (Some 3) \<rparr>,
       waits = [1000, 2000], queries = 3 \<rparr>
   \<and> batch (recovering 2) second_page =
     \<lparr> sent = Some \<lparr> status = 200, body = BatchBody
         \<lparr> features = [road_feature], page = Num 1, limit = Num 2, hasMore = False, count = 1 \<rparr> \<rparr>,
       waits = [1000, 2000], queries = 3 \<rparr>
   \<and> [road] = take 2 (drop 2 (sort_key doc_id (collection (recovering 2 2))))"
proof -
  have a: "\<forall>j<3. readyState (steady timing_out j) = 1 \<and>
      find_page (steady timing_out j) (skip_of second_page) (limit_of second_page) = Inl (js ''timeout'')"
    by (simp add: steady_def timing_out_throws)
  have b: "\<forall>j<2. readyState (recovering 2 j) = 1 \<and>
      find_page (recovering 2 j) (skip_of second_page) (limit_of second_page) = Inl (js ''timeout'')"
    by (simp add: recovering_def timing_out_throws)
  have c: "(2::nat) < maxRetries \<and> readyState (recovering 2 2) = 1 \<and>
      find_page (recovering 2 2) (skip_of second_page) (limit_of second_page) = Inr [road]"
    by (simp add: maxRetries_def recovering_def sample_defs parse_defs find_page_def)
  have d: "page_of second_page = Num 1" "limit_of second_page = Num 2"
    by (simp_all add: sample_defs parse_defs)
  have e: "page_of second_page = Num 1 \<and> limit_of second_page = Num 2 \<and> (0::int) \<le> 1 \<and> (0::int) < 2
      \<and> (2::int) \<le> MAX_SAFE_INTEGER \<and> (1::int) * 2 \<le> MAX_SAFE_INTEGER"
    by (simp add: d MAX_SAFE_INTEGER_def)
  have f: "\<lparr> f_type = js ''Feature'',
        f_geometry = (case doc_geometry road of
            None \<Rightarrow> JObj [(js ''type'', JStr (js ''Point'')),
                           (js ''coordinates'', JArr [JNum 0, JNum 0])]
          | Some g \<Rightarrow> if truthy g then g
              else JObj [(js ''type'', JStr (js ''Point'')),
                         (js ''coordinates'', JArr [JNum 0, JNum 0])]),
        f_properties = (case doc_properties road of
            None \<Rightarrow> JObj [] | Some x \<Rightarrow> if truthy x then x else JObj []),
        f_file = (case doc_file road of
            None \<Rightarrow> JStr (js ''default'')
          | Some t \<Rightarrow> if truthy t then t else JStr (js ''default'')),
        f_id = doc_id road \<rparr> = road_feature"
    by (simp add: road_def road_feature_def js_def)
  have "batch (steady timing_out) second_page =
     \<lparr> sent = Some \<lparr> status = 500,
          body = ErrorBody (js ''Failed to fetch batch after retries'') (Some (js ''timeout'')) (Some 3) \<rparr>,
       waits = [1000, 2000], queries = 3 \<rparr>"
    using batch_retry_policy [of 3 "steady timing_out" second_page "\<lambda>j. js ''timeout''" "[]"] a
    by (simp add: maxRetries_def)
  moreover have "batch (recovering 2) second_page =
     \<lparr> sent = Some \<lparr> status = 200, body = BatchBody
         \<lparr> features = [road_feature], page = Num 1, limit = Num 2, hasMore = False, count = 1 \<rparr> \<rparr>,
       waits = [1000, 2000], queries = 3 \<rparr>
     \<and> [road] = take (nat 2) (drop (nat (1 * 2)) (sort_key doc_id (collection (recovering 2 2))))"
    using batch_retry_policy [of 2 "recovering 2" second_page "\<lambda>j. js ''timeout''" "[road]" 1 2] b c e
    by (simp add: maxRetries_def d f upt_rec)
  ultimately show ?thesis by simp
qed

lemma batch_depends_on_numbers:
  assumes "page_of req' = page_of req" and "limit_of req' = limit_of req"
  shows "batch env req' = batch env req"
proof -
  have "batch_try w req' out = batch_try w req out" for w out
    by (simp add: batch_try_def assms)
  then show ?thesis
    by (simp add: batch_unroll split: attempt.split)
qed

lemma batch_always_answers:
  "\<exists>r. sent (batch env req) = Some r \<and> (status r = 200 \<or> status r = 503 \<or> status r = 500)
     \<and> (status r = 503 \<longrightarrow> readyState (env (length (waits (batch env req)))) \<noteq> 1)
     \<and> (status r = 500 \<longrightarrow> (\<forall>j<3. \<exists>m. threw_at env req j m))"
  using batch_outcomes [of env req]
  by (auto simp: length_exponential_waits all_less_3 all_less_2 numeral_2_eq_2)

text \<open>
  C7, as stated, fails: a malformed parameter that starts with a number is not replaced by
  the default. \<open>page= -5x\<close> is read as -5 and \<open>limit=4abc\<close> as 4, and with a store that
  refuses the negative skip the request ends in a 500.
\<close>

theorem batch_leading_number_counterexample:
  "query_page signed = Some (js '' -5x'') \<and> query_limit signed = Some (js ''4abc'')
   \<and> page_of signed = Num (- 5) \<and> limit_of signed = Num 4 \<and> skip_of signed = Num (- 20)
   \<and> map_option status (sent (batch (steady up) signed)) = Some 500"
  by (simp add: batch_unroll batch_try_def Let_def trace_defs sample_defs parse_defs find_page_def)

text \<open>
  C7, amended. The page and the limit are the numbers \<open>parseInt\<close> reads from the
  parameters: the integer a parameter starts with, whatever follows it. A parameter in
  which \<open>parseInt\<close> finds no number (\<open>NaN\<close>) is replaced by the default, 0 or 500 (and so is
  a limit read as 0), and the request then runs exactly as the request without that
  parameter. The route refuses no request for its parameters: every request is answered,
  with 200, with 503 (the store was not ready at that attempt) or with 500, and with 500
  only after the store's query rejected in each of the three attempts.
\<close>

theorem batch_no_validation_error:
  "page_of req =
      (if parseInt (ToString (query_page req)) = NaN then Num 0
       else parseInt (ToString (query_page req)))
   \<and> limit_of req =
      (if parseInt (ToString (query_limit req)) = NaN
          \<or> parseInt (ToString (query_limit req)) = Num 0 then Num 500
       else parseInt (ToString (query_limit req)))
   \<and> (parseInt (ToString (query_page req)) = NaN \<longrightarrow>
      page_of req = Num 0 \<and> batch env req = batch env (req \<lparr> query_page := None \<rparr>))
   \<and> (parseInt (ToString (query_limit req)) = NaN \<longrightarrow>
      limit_of req = Num 500 \<and> batch env req = batch env (req \<lparr> query_limit := None \<rparr>))
   \<and> (\<exists>r. sent (batch env req) = Some r
        \<and> (status r = 200 \<or> status r = 503 \<or> status r = 500)
        \<and> (status r = 503 \<longrightarrow> readyState (env (length (waits (batch env req)))) \<noteq> 1)
        \<and> (status r = 500 \<longrightarrow>
              (\<forall>j<maxRetries. readyState (env j) = 1 \<and>
                 (\<exists>m. find_page (env j) (skip_of req) (limit_of req) = Inl m))))"
proof -
  have "page_of req = Num 0 \<and> batch env req = batch env (req \<lparr> query_page := None \<rparr>)"
    if "parseInt (ToString (query_page req)) = NaN"
  proof -
    from that have "page_of (req \<lparr> query_page := None \<rparr>) = page_of req"
      "limit_of (req \<lparr> query_page := None \<rparr>) = limit_of req" "page_of req = Num 0"
      by (simp_all add: page_of_def limit_of_def absent_is_NaN or_default_def)
    then show ?thesis
      using batch_depends_on_numbers [of "req \<lparr> query_page := None \<rparr>" req env] by simp
  qed
  moreover have "limit_of req = Num 500 \<and> batch env req = batch env (req \<lparr> query_limit := None \<rparr>)"
    if "parseInt (ToString (query_limit req)) = NaN"
  proof -
    from that have "page_of (req \<lparr> query_limit := None \<rparr>) = page_of req"
      "limit_of (req \<lparr> query_limit := None \<rparr>) = limit_of req" "limit_of req = Num 500"
      by (simp_all add: page_of_def limit_of_def absent_is_NaN or_default_def)
    then show ?thesis
      using batch_depends_on_numbers [of "req \<lparr> query_limit := None \<rparr>" req env] by simp
  qed
  moreover note batch_always_answers [of env req]
  moreover note page_of_cases [of req] limit_of_cases [of req]
  ultimately show ?thesis
    by (simp add: maxRetries_def threw_at_def)
qed

theorem batch_no_validation_error_witness:
  "parseInt (ToString (query_page garbled)) = NaN \<and> parseInt (ToString (query_limit garbled)) = NaN
   \<and> page_of garbled = Num 0 \<and> limit_of garbled = Num 500
   \<and> batch (steady up) garbled = batch (steady up) no_query
   \<and> map_option status (sent (batch (steady up) garbled)) = Some 200
   \<and> parseInt (ToString (query_page trailing)) = Num 12 \<and> page_of trailing = Num 12"
proof -
  have nan: "parseInt (ToString (query_page garbled)) = NaN"
    "parseInt (ToString (query_limit garbled)) = NaN"
    by (simp_all add: garbled_def parse_defs)
  have twelve: "parseInt (ToString (query_page trailing)) = Num 12"
    by (simp add: trailing_def parse_defs)
  have "parseInt (ToString (query_limit (garbled \<lparr> query_page := None \<rparr>))) = NaN"
    by (simp add: nan)
  with batch_no_validation_error [of garbled "steady up"]
    batch_no_validation_error [of "garbled \<lparr> query_page := None \<rparr>" "steady up"] nan
  have "page_of garbled = Num 0" "limit_of garbled = Num 500"
    "batch (steady up) garbled = batch (steady up) (garbled \<lparr> query_page := None, query_limit := None \<rparr>)"
    by simp_all
  moreover have "garbled \<lparr> query_page := None, query_limit := None \<rparr> = no_query"
    by (simp add: garbled_def no_query_def)
  moreover have "map_option status (sent (batch (steady up) no_query)) = Some 200"
    by (simp add: no_query_up)
  moreover from batch_no_validation_error [of trailing "steady up"] twelve
  have "page_of trailing = Num 12"
    by simp
  ultimately show ?thesis
    using nan twelve by simp
qed

text \<open>
  C10. A limit parameter that \<open>parseInt\<close> reads as 0 is replaced by 500: the request runs
  exactly as the request without the parameter, the \<open>limit\<close> field of the answer is 500 and,
  for a page \<open>\<ge> 0\<close>, the features are the (at most 500) documents of that page, not an
  empty page. A page parameter read as 0 gives page 0, which is also the default.
\<close>

theorem zero_limit_is_default:
  assumes "parseInt (ToString (query_limit req)) = Num 0"
  shows "limit_of req = Num 500
    \<and> batch env req = batch env (req \<lparr> query_limit := None \<rparr>)
    \<and> (sent (batch env req) = Some \<lparr> status = 200, body = BatchBody b \<rparr> \<longrightarrow>
          limit b = Num 500 \<and>
          (page b = Num p \<and> 0 \<le> p \<and> p * 500 \<le> MAX_SAFE_INTEGER \<longrightarrow>
             features b = map to_geojson (take 500 (drop (nat (p * 500))
               (sort_key doc_id (collection (env (length (waits (batch env req))))))))))
    \<and> (parseInt (ToString (query_page req)) = Num 0 \<longrightarrow> page_of req = Num 0)"
proof -
  from assms have l: "limit_of req = Num 500"
    by (simp add: limit_of_def or_default_def)
  then have "page_of (req \<lparr> query_limit := None \<rparr>) = page_of req"
    "limit_of (req \<lparr> query_limit := None \<rparr>) = limit_of req"
    by (simp_all add: page_of_def limit_of_def absent_is_NaN or_default_def)
  then have same: "batch env req = batch env (req \<lparr> query_limit := None \<rparr>)"
    using batch_depends_on_numbers [of "req \<lparr> query_limit := None \<rparr>" req env] by simp
  have page: "limit b = Num 500 \<and>
      (page b = Num p \<and> 0 \<le> p \<and> p * 500 \<le> MAX_SAFE_INTEGER \<longrightarrow>
         features b = map to_geojson (take 500 (drop (nat (p * 500))
           (sort_key doc_id (collection (env (length (waits (batch env req)))))))))"
    if ok: "sent (batch env req) = Some \<lparr> status = 200, body = BatchBody b \<rparr>"
  proof -
    let ?w = "env (length (waits (batch env req)))"
    from ok obtain fs where
      fs: "find_page ?w (skip_of req) (limit_of req) = Inr fs"
      and b: "b = batch_json (page_of req) (limit_of req) fs"
      by (rule batch_ok_cases)
    have bl: "limit b = Num 500" "page b = page_of req" "features b = map to_geojson fs"
      by (simp_all add: b batch_json_def l)
    have "features b = map to_geojson (take 500 (drop (nat (p * 500)) (sort_key doc_id (collection ?w))))"
      if valid: "page b = Num p \<and> 0 \<le> p \<and> p * 500 \<le> MAX_SAFE_INTEGER"
    proof -
      from valid have "skip_of req = Num (p * 500)"
        using skip_regular [of req p 500] by (simp add: bl l)
      moreover have "(500::int) \<le> MAX_SAFE_INTEGER"
        by (simp add: MAX_SAFE_INTEGER_def)
      ultimately have "fs = take (nat 500) (drop (nat (p * 500)) (sort_key doc_id (collection ?w)))"
        using fs valid find_page_regular [of ?w "p * 500" 500 fs] by (simp add: l)
      then show ?thesis
        by (simp add: bl)
    qed
    with bl show ?thesis by blast
  qed
  have "parseInt (ToString (query_page req)) = Num 0 \<longrightarrow> page_of req = Num 0"
    by (simp add: page_of_def or_default_def)
  with l same page show ?thesis by blast
qed

theorem zero_limit_is_default_witness:
  "parseInt (ToString (query_limit zero_limit)) = Num 0
   \<and> limit_of zero_limit = Num 500
   \<and> sent (batch (steady up) zero_limit) =
       Some \<lparr> status = 200, body = BatchBody (batch_json (Num 0) (Num 500) [bare, untagged, road]) \<rparr>
   \<and> features (batch_json (Num 0) (Num 500) [bare, untagged, road]) =
       map to_geojson (take 500 (drop 0 (sort_key doc_id (collection up))))
   \<and> length (features (batch_json (Num 0) (Num 500) [bare, untagged, road])) = 3"
proof -
  let ?b = "batch_json (Num 0) (Num 500) [bare, untagged, road]"
  have zero: "parseInt (ToString (query_limit zero_limit)) = Num 0"
    by (simp add: zero_limit_def parse_defs)
  have ok: "sent (batch (steady up) zero_limit) = Some \<lparr> status = 200, body = BatchBody ?b \<rparr>"
    by (simp add: batch_unroll batch_try_def Let_def trace_defs sample_defs zero_limit_def parse_defs
          find_page_def)
  have valid: "page ?b = Num 0 \<and> (0::int) \<le> 0 \<and> (0::int) * 500 \<le> MAX_SAFE_INTEGER"
    by (simp add: batch_json_def MAX_SAFE_INTEGER_def)
  note zl = zero_limit_is_default [OF zero, of "steady up" ?b 0]
  from zl have "limit_of zero_limit = Num 500" by blast
  moreover from zl ok valid have "features ?b = map to_geojson (take 500 (drop (nat (0 * 500))
      (sort_key doc_id (collection (steady up (length (waits (batch (steady up) zero_limit))))))))"
    by blast
  then have "features ?b = map to_geojson (take 500 (drop 0 (sort_key doc_id (collection up))))"
    by (simp add: steady_def)
  moreover have "length (features ?b) = 3"
    by (simp add: batch_json_def)
  ultimately show ?thesis
    using zero ok by blast
qed

section \<open>The count route\<close>








lemma count_try_keeps_cache:
  "count_try w st = Threw m st' \<Longrightarrow> snd st' = snd st"
  by (auto simp add: count_try_def count_fresh_def Let_def split: if_splits option.splits sum.splits prod.splits)




text \<open>
  C6. A count request whose three attempts all reach the store with no fresh cached count,
  and whose estimate and exact count both reject each time: the answer is 500 with the
  message of the last error, after the delays 1000 * 1 and 1000 * 2 ms between the
  attempts; the cache is unchanged.
\<close>

theorem count_retry_policy:
  assumes "\<forall>j<maxRetries. readyState (env j) = 1 \<and> \<not> fresh c (env j)
      \<and> estimatedDocumentCount (env j) = Inl (e j) \<and> countDocuments (env j) = Inl (m j)"
  shows "count_route env c =
      (\<lparr> sent = Some \<lparr> status = 500,
            body = ErrorBody (js ''Failed to count features'') (Some (m 2)) None \<rparr>,
         waits = [1000 * 1, 1000 * 2], queries = 6 \<rparr>, c)"
proof -
  have failing: "readyState (env j) = 1" "\<not> fresh c (env j)"
    "estimatedDocumentCount (env j) = Inl (e j)" "countDocuments (env j) = Inl (m j)"
    if "j < 3" for j
    using assms that by (simp_all add: maxRetries_def)
  have "count_try (env j) (out, c) = Threw (m j) (awaited_query (awaited_query out), c)"
    if "j < 3" for j out
    using failing [OF that]
    by (cases "cachedCount c") (simp_all add: count_try_def count_fresh_def count_query_def fresh_def)
  then show ?thesis
    by (simp add: count_unroll trace_defs count_failed_def numeral_2_eq_2)
qed

theorem count_retry_policy_witness:
  "count_route (steady timing_out) initial_cache =
     (\<lparr> sent = Some \<lparr> status = 500,
           body = ErrorBody (js ''Failed to count features'') (Some (js ''timeout'')) None \<rparr>,
        waits = [1000, 2000], queries = 6 \<rparr>, initial_cache)"
proof -
  have "\<forall>j<maxRetries. readyState (steady timing_out j) = 1
      \<and> \<not> fresh initial_cache (steady timing_out j)
      \<and> estimatedDocumentCount (steady timing_out j) = Inl (js ''no estimate'')
      \<and> countDocuments (steady timing_out j) = Inl (js ''timeout'')"
    by (simp add: sample_defs initial_cache_def fresh_def estimatedDocumentCount_def
          countDocuments_def)
  from count_retry_policy [OF this] show ?thesis by simp
qed

text \<open>
  C9. Every count request is answered, and the cache changes only when the answer is a
  fresh count, to that count and the time read before its query: with any answer other
  than 200 (503, 500) the cache is what it was, and an attempt that throws leaves it
  unchanged.
\<close>

theorem count_cache_only_on_success:
  assumes "count_route env c = (out, c')"
  shows "(\<exists>r. sent out = Some r
        \<and> (status r \<noteq> 200 \<longrightarrow> c' = c)
        \<and> (c' \<noteq> c \<longrightarrow>
             (\<exists>n. r = \<lparr> status = 200, body = CountBody n False \<rparr>
                \<and> c' = \<lparr> cachedCount = Some n, countCacheTime = date_now (env (length (waits out))) \<rparr>)))
    \<and> (count_try w st = Threw m st' \<longrightarrow> snd st' = snd st)"
proof -
  from count_outcomes [of env c] assms
  have "\<exists>r. sent out = Some r
        \<and> (status r \<noteq> 200 \<longrightarrow> c' = c)
        \<and> (c' \<noteq> c \<longrightarrow>
             (\<exists>n. r = \<lparr> status = 200, body = CountBody n False \<rparr>
                \<and> c' = \<lparr> cachedCount = Some n, countCacheTime = date_now (env (length (waits out))) \<rparr>))"
    by (auto simp: length_linear_waits)
  then show ?thesis
    using count_try_keeps_cache [of w st m st'] by blast
qed

theorem count_cache_only_on_success_witness:
  "count_route (steady (later 30000 timing_out)) counted =
     (\<lparr> sent = Some \<lparr> status = 500, body = count_failed (js ''timeout'') \<rparr>,
        waits = [1000, 2000], queries = 6 \<rparr>, counted)
   \<and> (\<exists>r. Some \<lparr> status = 500, body = count_failed (js ''timeout'') \<rparr> = Some r \<and> status r \<noteq> 200)"
proof -
  have a: "count_route (steady (later 30000 timing_out)) counted =
     (\<lparr> sent = Some \<lparr> status = 500, body = count_failed (js ''timeout'') \<rparr>,
        waits = [1000, 2000], queries = 6 \<rparr>, counted)"
    by (simp add: count_unroll count_try_def count_fresh_def count_query_def estimatedDocumentCount_def
        countDocuments_def trace_defs sample_defs later_def counted_def COUNT_CACHE_TTL_def)
  from count_cache_only_on_success [OF a, of up "(start, counted)" "[]" "(start, counted)"]
  have "\<exists>r. Some \<lparr> status = 500, body = count_failed (js ''timeout'') \<rparr> = Some r \<and> status r \<noteq> 200"
    by simp
  with a show ?thesis by simp
qed

section \<open>The legacy route\<close>

lemma collect_is_map: "collect docs = map to_geojson docs"
proof -
  have "foldl (\<lambda>fs d. fs @ [to_geojson d]) acc docs = acc @ map to_geojson docs" for acc
    by (induction docs arbitrary: acc) simp_all
  then show ?thesis
    by (simp add: collect_def)
qed





end
